theory Spec2Isabelle
  imports Complex_Main
begin

section \<open>A RAG notebook over GitHub issues: the composition and its library parameters\<close>

text \<open>
  The program is the notebook \<^verbatim>\<open>notebooks/en/rag_zephyr_langchain.ipynb\<close>. Its code cells
  create library objects and compose them; the notebook's global namespace is the state.
  The third-party calls (issue loader, text splitter, embedding model, nearest-neighbour
  search, language model, Python's \<^verbatim>\<open>str\<close>) are parameters, collected in a record
  \<open>library\<close>; what the notebook itself writes (constants, the prompt template, the chains,
  the order of the assignments) is translated cell by cell.
\<close>

subsection \<open>Errors as values\<close>

datatype error =
    Name_Error string
  | Key_Error string
  | Value_Error string
  | Type_Error string
  | Index_Error string
  | Library_Error string

definition and_then :: "error + 'a \<Rightarrow> ('a \<Rightarrow> error + 'b) \<Rightarrow> error + 'b" where
  "and_then r f = (case r of Inl e \<Rightarrow> Inl e | Inr x \<Rightarrow> f x)"

subsection \<open>Data\<close>

record document =
  page_content :: string
  metadata :: "(string \<times> string) list"

text \<open>The values that flow through a chain: a string, a list of documents, a dict.\<close>

datatype pyvalue = Str string | Docs "document list" | Dict "(string \<times> pyvalue) list"

text \<open>
  \<^verbatim>\<open>GitHubIssuesLoader(repo=..., access_token=..., include_prs=False, state="all")\<close>.
  The access token is typed in by the user; it is left to the library's \<open>load_issues\<close>.
\<close>

record issues_loader =
  repo :: string
  include_prs :: bool
  state :: string

text \<open>\<^verbatim>\<open>CharacterTextSplitter(chunk_size=512, chunk_overlap=30)\<close>\<close>

record text_splitter =
  chunk_size :: nat
  chunk_overlap :: nat

text \<open>
  The vector store built by \<^verbatim>\<open>FAISS.from_documents\<close>: the embedding function it was given
  and the (vector, segment) pairs in insertion order.
\<close>

record 'v faiss =
  embedding_function :: "string \<Rightarrow> 'v"
  entries :: "('v \<times> document) list"

text \<open>\<^verbatim>\<open>db.as_retriever(search_type=..., search_kwargs=...)\<close>\<close>

record 'v retriever =
  vectorstore :: "'v faiss"
  search_type :: string
  search_kwargs :: "string \<rightharpoonup> nat"

text \<open>The keyword arguments of \<^verbatim>\<open>pipeline(task="text-generation", ...)\<close>.\<close>

record gen_config =
  temperature :: real
  do_sample :: bool
  repetition_penalty :: real
  return_full_text :: bool
  max_new_tokens :: nat

text \<open>
  Chains are declarative: \<^verbatim>\<open>a | b\<close> is \<open>Pipe a b\<close>, a dict of runnables is \<open>Parallel\<close>.
\<close>

datatype 'v runnable =
    Prompt string
  | LLM gen_config
  | StrOutputParser
  | Retriever "'v retriever"
  | RunnablePassthrough
  | Pipe "'v runnable" "'v runnable"
  | Parallel "(string \<times> 'v runnable) list"

subsection \<open>The third-party calls, as parameters\<close>

text \<open>
  \<open>generate\<close> takes the state of the random generator as an argument of type \<open>'r\<close>: the
  notebook sets \<^verbatim>\<open>do_sample=True\<close>, so the completion is not a function of the prompt
  alone. \<open>nearest\<close> is the index search by vector; \<open>other_search\<close> stands for the search
  types the notebook does not use.
\<close>

record ('v, 'd, 'r) library =
  load_issues :: "issues_loader \<Rightarrow> error + document list"
  split_text :: "text_splitter \<Rightarrow> string \<Rightarrow> string list"
  embed_query :: "string \<Rightarrow> string \<Rightarrow> 'v"
  nearest :: "('v \<times> document) list \<Rightarrow> 'v \<Rightarrow> nat \<Rightarrow> error + (document \<times> 'd) list"
  other_search :: "'v retriever \<Rightarrow> string \<Rightarrow> error + document list"
  generate :: "gen_config \<Rightarrow> 'r \<Rightarrow> string \<Rightarrow> string"
  py_str :: "pyvalue \<Rightarrow> string"

subsection \<open>Chunking and the vector store\<close>

text \<open>
  \<^verbatim>\<open>splitter.split_documents(docs)\<close>: every chunk of a document's text becomes a document
  that carries the metadata of its source.
\<close>

definition split_documents ::
  "('v, 'd, 'r) library \<Rightarrow> text_splitter \<Rightarrow> document list \<Rightarrow> document list" where
  "split_documents lib s ds =
     concat (map (\<lambda>d. map (\<lambda>c. \<lparr>page_content = c, metadata = metadata d\<rparr>)
                          (split_text lib s (page_content d))) ds)"

text \<open>
  \<^verbatim>\<open>FAISS.from_documents(chunked_docs, embeddings)\<close>: \<open>faiss_store\<close> is the store it returns.
  The library sizes the index from the first embedding, so on an empty list of chunks the
  call raises \<^verbatim>\<open>IndexError\<close>; this is behaviour of the library, not text of the notebook.
\<close>

definition faiss_store :: "document list \<Rightarrow> (string \<Rightarrow> 'v) \<Rightarrow> 'v faiss" where
  "faiss_store chunks emb =
     \<lparr>embedding_function = emb,
      entries = map (\<lambda>c. (emb (page_content c), c)) chunks\<rparr>"

definition from_documents :: "document list \<Rightarrow> (string \<Rightarrow> 'v) \<Rightarrow> error + 'v faiss" where
  "from_documents chunks emb =
     (if chunks = [] then Inl (Index_Error ''list index out of range'')
      else Inr (faiss_store chunks emb))"

text \<open>
  Modelled from the spec: the store's similarity search is library code that is not in the
  notebook. Section 4.5 gives its steps: embed the question, then query the index for the
  k nearest segments.
\<close>

definition similarity_search ::
  "('v, 'd, 'r) library \<Rightarrow> 'v faiss \<Rightarrow> string \<Rightarrow> nat \<Rightarrow> error + document list" where
  "similarity_search lib store q k =
     and_then (nearest lib (entries store) (embedding_function store q) k)
       (\<lambda>hits. Inr (map fst hits))"

definition as_retriever ::
  "'v faiss \<Rightarrow> string option \<Rightarrow> (string \<rightharpoonup> nat) option \<Rightarrow> 'v retriever" where
  "as_retriever store st kw =
     \<lparr>vectorstore = store,
      search_type = (case st of None \<Rightarrow> ''similarity'' | Some s \<Rightarrow> s),
      search_kwargs = (case kw of None \<Rightarrow> Map.empty | Some m \<Rightarrow> m)\<rparr>"

text \<open>
  Modelled from the spec: the defaults of a retriever made with no arguments are library
  constants that are not in the notebook. Sections 4.3 and 4.5 give them: a similarity
  search for k = 4 segments.
\<close>

definition retriever_invoke ::
  "('v, 'd, 'r) library \<Rightarrow> 'v retriever \<Rightarrow> string \<Rightarrow> error + document list" where
  "retriever_invoke lib r q =
     (if search_type r = ''similarity''
      then similarity_search lib (vectorstore r) q
             (case search_kwargs r ''k'' of None \<Rightarrow> 4 | Some k \<Rightarrow> k)
      else other_search lib r q)"

subsection \<open>Prompt formatting\<close>

text \<open>
  \<^verbatim>\<open>str.format\<close> on a template whose replacement fields are plain names: the second argument
  is the name being read after an opening brace. Brace escapes and format specifications
  do not occur in the notebook's template and are not modelled.
\<close>

fun format_go :: "(string \<rightharpoonup> string) \<Rightarrow> string option \<Rightarrow> string \<Rightarrow> error + string" where
  "format_go kv None [] = Inr []"
| "format_go kv (Some n) [] = Inl (Value_Error ''expected } before end of string'')"
| "format_go kv None (c # cs) =
     (if c = CHR ''{'' then format_go kv (Some []) cs
      else if c = CHR ''}'' then Inl (Value_Error ''single } encountered in format string'')
      else and_then (format_go kv None cs) (\<lambda>r. Inr (c # r)))"
| "format_go kv (Some n) (c # cs) =
     (if c = CHR ''}'' then
        (case kv (rev n) of
           None \<Rightarrow> Inl (Key_Error (rev n))
         | Some v \<Rightarrow> and_then (format_go kv None cs) (\<lambda>r. Inr (v @ r)))
      else format_go kv (Some (c # n)) cs)"

definition format_template :: "string \<Rightarrow> (string \<rightharpoonup> string) \<Rightarrow> error + string" where
  "format_template t kv = format_go kv None t"

text \<open>Python's \<^verbatim>\<open>str\<close>: a string is itself, anything else is rendered by the library.\<close>

definition to_str :: "('v, 'd, 'r) library \<Rightarrow> pyvalue \<Rightarrow> string" where
  "to_str lib v = (case v of Str s \<Rightarrow> s | _ \<Rightarrow> py_str lib v)"

subsection \<open>Invoking a chain\<close>

fun invoke :: "('v, 'd, 'r) library \<Rightarrow> 'r \<Rightarrow> 'v runnable \<Rightarrow> pyvalue \<Rightarrow> error + pyvalue"
  and invoke_all ::
    "('v, 'd, 'r) library \<Rightarrow> 'r \<Rightarrow> (string \<times> 'v runnable) list \<Rightarrow> pyvalue
      \<Rightarrow> error + (string \<times> pyvalue) list" where
  "invoke lib seed (Prompt t) v =
     (case v of
        Dict kv \<Rightarrow>
          and_then (format_template t (map_of (map (\<lambda>(k, x). (k, to_str lib x)) kv)))
            (\<lambda>p. Inr (Str p))
      | _ \<Rightarrow> Inl (Type_Error ''Prompt''))"
| "invoke lib seed (LLM cfg) v =
     (case v of
        Str p \<Rightarrow> Inr (Str (generate lib cfg seed p))
      | _ \<Rightarrow> Inl (Type_Error ''LLM''))"
| "invoke lib seed StrOutputParser v =
     (case v of
        Str s \<Rightarrow> Inr (Str s)
      | _ \<Rightarrow> Inl (Type_Error ''StrOutputParser''))"
| "invoke lib seed (Retriever r) v =
     (case v of
        Str q \<Rightarrow> and_then (retriever_invoke lib r q) (\<lambda>ds. Inr (Docs ds))
      | _ \<Rightarrow> Inl (Type_Error ''Retriever''))"
| "invoke lib seed RunnablePassthrough v = Inr v"
| "invoke lib seed (Pipe a b) v = and_then (invoke lib seed a v) (invoke lib seed b)"
| "invoke lib seed (Parallel steps) v =
     and_then (invoke_all lib seed steps v) (\<lambda>kv. Inr (Dict kv))"
| "invoke_all lib seed [] v = Inr []"
| "invoke_all lib seed ((k, r) # steps) v =
     and_then (invoke lib seed r v)
       (\<lambda>x. and_then (invoke_all lib seed steps v) (\<lambda>kv. Inr ((k, x) # kv)))"

subsection \<open>The notebook's constants\<close>

definition loader :: issues_loader where
  "loader = \<lparr>repo = ''huggingface/peft'', include_prs = False, state = ''all''\<rparr>"

definition splitter :: text_splitter where
  "splitter = \<lparr>chunk_size = 512, chunk_overlap = 30\<rparr>"

definition text_generation_pipeline :: gen_config where
  "text_generation_pipeline =
     \<lparr>temperature = 0.2, do_sample = True, repetition_penalty = 1.1,
      return_full_text = True, max_new_tokens = 400\<rparr>"

definition llm :: "'v runnable" where
  "llm = LLM text_generation_pipeline"

definition prompt_template :: string where
  "prompt_template =
     ''\<newline><|system|>\<newline>Answer the question based on your knowledge. Use the following context to help:\<newline>\<newline>{context}\<newline>\<newline></s>\<newline><|user|>\<newline>{question}\<newline></s>\<newline><|assistant|>\<newline>\<newline> ''"

definition prompt :: "'v runnable" where
  "prompt = Prompt prompt_template"

definition llm_chain :: "'v runnable" where
  "llm_chain = Pipe (Pipe prompt llm) StrOutputParser"

subsection \<open>The notebook's namespace and its cells\<close>

text \<open>
  A variable is \<open>None\<close> until a cell assigns it; reading an unassigned variable is a
  \<^verbatim>\<open>NameError\<close>.
\<close>

record 'v env =
  var_docs :: "document list option"
  var_chunked_docs :: "document list option"
  var_db :: "'v faiss option"
  var_retriever :: "'v retriever option"
  var_llm_chain :: "'v runnable option"
  var_rag_chain :: "'v runnable option"
  var_question :: "string option"

definition empty_env :: "'v env" where
  "empty_env =
     \<lparr>var_docs = None, var_chunked_docs = None, var_db = None, var_retriever = None,
      var_llm_chain = None, var_rag_chain = None, var_question = None\<rparr>"

definition lookup_var :: "string \<Rightarrow> 'a option \<Rightarrow> error + 'a" where
  "lookup_var name v = (case v of None \<Rightarrow> Inl (Name_Error name) | Some x \<Rightarrow> Inr x)"

text \<open>\<^verbatim>\<open>docs = loader.load()\<close>\<close>

definition cell_load :: "('v, 'd, 'r) library \<Rightarrow> 'v env \<Rightarrow> error + 'v env" where
  "cell_load lib e =
     and_then (load_issues lib loader) (\<lambda>ds. Inr (e\<lparr>var_docs := Some ds\<rparr>))"

text \<open>\<^verbatim>\<open>chunked_docs = splitter.split_documents(docs)\<close>\<close>

definition cell_split :: "('v, 'd, 'r) library \<Rightarrow> 'v env \<Rightarrow> error + 'v env" where
  "cell_split lib e =
     and_then (lookup_var ''docs'' (var_docs e))
       (\<lambda>ds. Inr (e\<lparr>var_chunked_docs := Some (split_documents lib splitter ds)\<rparr>))"

text \<open>
  \<^verbatim>\<open>db = FAISS.from_documents(chunked_docs, HuggingFaceEmbeddings(model_name='BAAI/bge-base-en-v1.5'))\<close>
\<close>

definition cell_db :: "('v, 'd, 'r) library \<Rightarrow> 'v env \<Rightarrow> error + 'v env" where
  "cell_db lib e =
     and_then (lookup_var ''chunked_docs'' (var_chunked_docs e))
       (\<lambda>cs. and_then (from_documents cs (embed_query lib ''BAAI/bge-base-en-v1.5''))
          (\<lambda>store. Inr (e\<lparr>var_db := Some store\<rparr>)))"

text \<open>\<^verbatim>\<open>retriever = db.as_retriever(search_type="similarity", search_kwargs={'k': 4})\<close>\<close>

definition cell_retriever :: "'v env \<Rightarrow> error + 'v env" where
  "cell_retriever e =
     and_then (lookup_var ''db'' (var_db e))
       (\<lambda>store. Inr (e\<lparr>var_retriever :=
                Some (as_retriever store (Some ''similarity'') (Some [''k'' \<mapsto> 4]))\<rparr>))"

text \<open>\<^verbatim>\<open>llm_chain = prompt | llm | StrOutputParser()\<close>\<close>

definition cell_llm_chain :: "'v env \<Rightarrow> error + 'v env" where
  "cell_llm_chain e = Inr (e\<lparr>var_llm_chain := Some llm_chain\<rparr>)"

text \<open>
  \<^verbatim>\<open>retriever = db.as_retriever()\<close>, then
  \<^verbatim>\<open>rag_chain = ({"context": retriever, "question": RunnablePassthrough()} | llm_chain)\<close>:
  the dict reads the variable \<^verbatim>\<open>retriever\<close> after the assignment before it.
\<close>

definition cell_rag_chain :: "'v env \<Rightarrow> error + 'v env" where
  "cell_rag_chain e =
     and_then (lookup_var ''db'' (var_db e))
       (\<lambda>store.
          let e1 = e\<lparr>var_retriever := Some (as_retriever store None None)\<rparr> in
          and_then (lookup_var ''retriever'' (var_retriever e1))
            (\<lambda>r. and_then (lookup_var ''llm_chain'' (var_llm_chain e1))
              (\<lambda>c. Inr (e1\<lparr>var_rag_chain :=
                       Some (Pipe (Parallel [(''context'', Retriever r),
                                             (''question'', RunnablePassthrough)]) c)\<rparr>))))"

text \<open>\<^verbatim>\<open>question = "How do you combine multiple adapters?"\<close>\<close>

definition cell_question :: "'v env \<Rightarrow> error + 'v env" where
  "cell_question e = Inr (e\<lparr>var_question := Some ''How do you combine multiple adapters?''\<rparr>)"

text \<open>
  The cells in the order of the notebook: the data cells up to the first retriever, then
  the chain cells.
\<close>

definition cells_data :: "('v, 'd, 'r) library \<Rightarrow> error + 'v env" where
  "cells_data lib =
     and_then (cell_load lib empty_env)
       (\<lambda>e. and_then (cell_split lib e)
         (\<lambda>e. and_then (cell_db lib e) cell_retriever))"

definition cells_chain :: "'v env \<Rightarrow> error + 'v env" where
  "cells_chain e =
     and_then (cell_llm_chain e) (\<lambda>e. and_then (cell_rag_chain e) cell_question)"

definition notebook :: "('v, 'd, 'r) library \<Rightarrow> error + 'v env" where
  "notebook lib = and_then (cells_data lib) cells_chain"

text \<open>
  The two invocations. An expression statement assigns nothing: the cell returns the value
  it displays and the namespace it was given.
  \<^verbatim>\<open>llm_chain.invoke({"context": "", "question": question})\<close> and
  \<^verbatim>\<open>rag_chain.invoke(question)\<close>; \<open>answer\<close> is the latter for a question passed in.
\<close>

definition cell_llm_invoke ::
  "('v, 'd, 'r) library \<Rightarrow> 'r \<Rightarrow> 'v env \<Rightarrow> (error + pyvalue) \<times> 'v env" where
  "cell_llm_invoke lib seed e =
     (and_then (lookup_var ''llm_chain'' (var_llm_chain e))
        (\<lambda>c. and_then (lookup_var ''question'' (var_question e))
          (\<lambda>q. invoke lib seed c (Dict [(''context'', Str ''''), (''question'', Str q)]))),
      e)"

definition answer ::
  "('v, 'd, 'r) library \<Rightarrow> 'r \<Rightarrow> string \<Rightarrow> 'v env \<Rightarrow> (error + pyvalue) \<times> 'v env" where
  "answer lib seed q e =
     (and_then (lookup_var ''rag_chain'' (var_rag_chain e)) (\<lambda>c. invoke lib seed c (Str q)),
      e)"

definition cell_rag_invoke ::
  "('v, 'd, 'r) library \<Rightarrow> 'r \<Rightarrow> 'v env \<Rightarrow> (error + pyvalue) \<times> 'v env" where
  "cell_rag_invoke lib seed e =
     (case var_rag_chain e of
        None \<Rightarrow> (Inl (Name_Error ''rag_chain''), e)
      | Some c \<Rightarrow>
          (case var_question e of
             None \<Rightarrow> (Inl (Name_Error ''question''), e)
           | Some q \<Rightarrow> answer lib seed q e))"

subsection \<open>The vector index of the specification\<close>

text \<open>
  Modelled from the spec: the nearest-neighbour search is library code (FAISS) that is not
  in the notebook. Section 4.3: \<^verbatim>\<open>insert(vector, segment)\<close> in bulk at build time;
  \<^verbatim>\<open>query(vector, k)\<close> returns the k closest segments with their distances by a fixed
  distance metric, ties broken by insertion order; querying an empty index is an error.
  The metric is the parameter \<open>metric\<close>. \<open>sort_key\<close> is a stable insertion sort, so equal
  distances keep their insertion order.
\<close>

definition insert_index :: "('v \<times> 's) list \<Rightarrow> ('v \<times> 's) list \<Rightarrow> ('v \<times> 's) list" where
  "insert_index idx pairs = idx @ pairs"

definition query_index ::
  "('v \<Rightarrow> 'v \<Rightarrow> 'd::linorder) \<Rightarrow> ('v \<times> 's) list \<Rightarrow> 'v \<Rightarrow> nat \<Rightarrow> error + ('s \<times> 'd) list" where
  "query_index metric idx v k =
     (if idx = [] then Inl (Library_Error ''query on an empty index'')
      else Inr (take k (sort_key snd (map (\<lambda>(u, s). (s, metric v u)) idx))))"

subsection \<open>A small library instance\<close>

text \<open>
  An instance of the parameters on which the notebook can be run by evaluation: two
  issues, one chunk per issue, the length of a text as its embedding, the absolute
  difference as the metric and the index above as the search.
\<close>

definition demo_distance :: "int \<Rightarrow> int \<Rightarrow> int" where
  "demo_distance a b = \<bar>a - b\<bar>"

definition demo_issues :: "document list" where
  "demo_issues =
     [\<lparr>page_content = ''merge adapters'', metadata = [(''number'', ''1'')]\<rparr>,
      \<lparr>page_content = ''LoRA'', metadata = [(''number'', ''2'')]\<rparr>]"

definition demo_lib :: "(int, int, nat) library" where
  "demo_lib =
     \<lparr>load_issues = (\<lambda>l. Inr demo_issues),
      split_text = (\<lambda>s t. [t]),
      embed_query = (\<lambda>name t. int (length t)),
      nearest = query_index demo_distance,
      other_search = (\<lambda>r q. Inl (Library_Error ''search type'')),
      generate = (\<lambda>cfg seed p. if do_sample cfg \<and> odd seed then ''yes'' else ''no''),
      py_str = (\<lambda>v. ''[...]'')\<rparr>"

section \<open>Properties\<close>

subsection \<open>Formatting the prompt and running the chains\<close>

lemma format_prompt:
  "kv ''context'' = Some c \<Longrightarrow> kv ''question'' = Some q \<Longrightarrow>
   format_template prompt_template kv =
     Inr (''\<newline><|system|>\<newline>Answer the question based on your knowledge. Use the following context to help:\<newline>\<newline>''
          @ c @ ''\<newline>\<newline></s>\<newline><|user|>\<newline>'' @ q
          @ ''\<newline></s>\<newline><|assistant|>\<newline>\<newline> '')"
  by (simp add: format_template_def prompt_template_def and_then_def)

lemma llm_chain_invoke:
  "invoke lib seed llm_chain (Dict [(''context'', c), (''question'', Str q)]) =
     Inr (Str (generate lib text_generation_pipeline seed
       (''\<newline><|system|>\<newline>Answer the question based on your knowledge. Use the following context to help:\<newline>\<newline>''
        @ to_str lib c @ ''\<newline>\<newline></s>\<newline><|user|>\<newline>'' @ q
        @ ''\<newline></s>\<newline><|assistant|>\<newline>\<newline> '')))"
  by (simp add: llm_chain_def prompt_def llm_def format_prompt and_then_def to_str_def)

lemma default_retriever_invoke:
  "retriever_invoke lib (as_retriever store None None) q = similarity_search lib store q 4"
  by (simp add: retriever_invoke_def as_retriever_def)

lemma explicit_retriever_invoke:
  "retriever_invoke lib (as_retriever store (Some ''similarity'') (Some [''k'' \<mapsto> 4])) q =
     similarity_search lib store q 4"
  by (simp add: retriever_invoke_def as_retriever_def)

lemma retrievers_differ:
  "as_retriever store None None \<noteq>
     as_retriever store (Some ''similarity'') (Some [''k'' \<mapsto> 4])"
proof
  assume "as_retriever store None None =
      as_retriever store (Some ''similarity'') (Some [''k'' \<mapsto> 4])"
  then have "search_kwargs (as_retriever store None None) ''k'' =
      search_kwargs (as_retriever store (Some ''similarity'') (Some [''k'' \<mapsto> 4])) ''k''"
    by simp
  then show False by (simp add: as_retriever_def)
qed

lemma rag_chain_invoke:
  "invoke lib seed
     (Pipe (Parallel [(''context'', Retriever (as_retriever store None None)),
                      (''question'', RunnablePassthrough)]) llm_chain) (Str q) =
   (case nearest lib (entries store) (embedding_function store q) 4 of
      Inl err \<Rightarrow> Inl err
    | Inr hits \<Rightarrow>
        invoke lib seed llm_chain
          (Dict [(''context'', Docs (map fst hits)), (''question'', Str q)]))"
  by (simp add: default_retriever_invoke similarity_search_def and_then_def split: sum.splits)

subsection \<open>Running the cells\<close>

lemma cells_data_run:
  "cells_data lib = Inr e \<longleftrightarrow>
     (\<exists>ds. load_issues lib loader = Inr ds \<and>
        split_documents lib splitter ds \<noteq> [] \<and>
        e = \<lparr>var_docs = Some ds,
             var_chunked_docs = Some (split_documents lib splitter ds),
             var_db = Some (faiss_store (split_documents lib splitter ds)
                        (embed_query lib ''BAAI/bge-base-en-v1.5'')),
             var_retriever = Some (as_retriever
                        (faiss_store (split_documents lib splitter ds)
                           (embed_query lib ''BAAI/bge-base-en-v1.5''))
                        (Some ''similarity'') (Some [''k'' \<mapsto> 4])),
             var_llm_chain = None, var_rag_chain = None, var_question = None\<rparr>)"
  by (auto simp: cells_data_def cell_load_def cell_split_def cell_db_def cell_retriever_def
        from_documents_def and_then_def lookup_var_def empty_env_def split: sum.splits)

lemma cells_chain_run:
  "var_db e0 = Some store \<Longrightarrow>
   cells_chain e0 =
     Inr (e0\<lparr>var_llm_chain := Some llm_chain,
             var_retriever := Some (as_retriever store None None),
             var_rag_chain :=
               Some (Pipe (Parallel [(''context'', Retriever (as_retriever store None None)),
                                     (''question'', RunnablePassthrough)]) llm_chain),
             var_question := Some ''How do you combine multiple adapters?''\<rparr>)"
  by (simp add: cells_chain_def cell_llm_chain_def cell_rag_chain_def cell_question_def
        and_then_def lookup_var_def Let_def)

lemma notebook_run:
  "notebook lib = Inr e \<longleftrightarrow>
     (\<exists>ds. load_issues lib loader = Inr ds \<and>
        split_documents lib splitter ds \<noteq> [] \<and>
        e = \<lparr>var_docs = Some ds,
             var_chunked_docs = Some (split_documents lib splitter ds),
             var_db = Some (faiss_store (split_documents lib splitter ds)
                        (embed_query lib ''BAAI/bge-base-en-v1.5'')),
             var_retriever = Some (as_retriever
                        (faiss_store (split_documents lib splitter ds)
                           (embed_query lib ''BAAI/bge-base-en-v1.5'')) None None),
             var_llm_chain = Some llm_chain,
             var_rag_chain = Some (Pipe (Parallel
                        [(''context'', Retriever (as_retriever
                            (faiss_store (split_documents lib splitter ds)
                               (embed_query lib ''BAAI/bge-base-en-v1.5'')) None None)),
                         (''question'', RunnablePassthrough)]) llm_chain),
             var_question = Some ''How do you combine multiple adapters?''\<rparr>)"
proof -
  have "notebook lib = Inr e \<longleftrightarrow> (\<exists>e0. cells_data lib = Inr e0 \<and> cells_chain e0 = Inr e)"
    by (auto simp: notebook_def and_then_def split: sum.splits)
  then show ?thesis
    by (auto simp: cells_data_run cells_chain_run)
qed

lemma demo_notebook: "\<exists>e. notebook demo_lib = Inr e"
  by (simp add: notebook_run demo_lib_def split_documents_def demo_issues_def)

lemma demo_cells_data: "\<exists>e. cells_data demo_lib = Inr e"
  by (simp add: cells_data_run demo_lib_def split_documents_def demo_issues_def)

subsection \<open>Sorting by distance\<close>

lemma least_keys_first:
  fixes f :: "'a \<Rightarrow> 'k::linorder"
  shows "sorted (map f zs) \<Longrightarrow> \<forall>z\<in>set zs. c \<le> f z \<Longrightarrow>
    zs = filter (\<lambda>z. f z = c) zs @ filter (\<lambda>z. f z \<noteq> c) zs"
proof (induction zs)
  case Nil
  then show ?case by simp
next
  case (Cons z zs)
  show ?case
  proof (cases "f z = c")
    case True
    with Cons show ?thesis by simp
  next
    case False
    with Cons.prems have "\<forall>y\<in>set zs. f y \<noteq> c" by fastforce
    then have "filter (\<lambda>z. f z = c) zs = []" "filter (\<lambda>z. f z \<noteq> c) zs = zs"
      by (simp_all add: filter_empty_conv filter_id_conv)
    with False show ?thesis by simp
  qed
qed

lemma sort_key_least_prefix:
  fixes f :: "'a \<Rightarrow> 'k::linorder"
  assumes "\<forall>y\<in>set ys. c \<le> f y"
  shows "\<exists>rest. sort_key f ys = filter (\<lambda>y. f y = c) ys @ rest"
proof -
  have "sort_key f ys =
      filter (\<lambda>z. f z = c) (sort_key f ys) @ filter (\<lambda>z. f z \<noteq> c) (sort_key f ys)"
    using assms by (intro least_keys_first) simp_all
  then show ?thesis by (metis sort_key_stable)
qed

section \<open>The claims\<close>

text \<open>
  Claim C1. For every question, \<open>answer\<close> (the notebook's \<^verbatim>\<open>rag_chain.invoke\<close>) embeds the
  question with the store's embedding function, queries the index for the 4 nearest
  segments, fills the prompt with the retrieved documents and the unchanged question, and
  returns the generator's completion of that prompt. An error of the index search is
  returned as it is.
\<close>

theorem answer_retrieves_then_generates:
  assumes "notebook lib = Inr e"
  shows "\<exists>store. var_db e = Some store \<and>
           embedding_function store = embed_query lib ''BAAI/bge-base-en-v1.5'' \<and>
           fst (answer lib seed q e) =
             (case nearest lib (entries store) (embedding_function store q) 4 of
                Inl err \<Rightarrow> Inl err
              | Inr hits \<Rightarrow>
                  Inr (Str (generate lib text_generation_pipeline seed
                    (''\<newline><|system|>\<newline>Answer the question based on your knowledge. Use the following context to help:\<newline>\<newline>''
                     @ py_str lib (Docs (map fst hits))
                     @ ''\<newline>\<newline></s>\<newline><|user|>\<newline>'' @ q
                     @ ''\<newline></s>\<newline><|assistant|>\<newline>\<newline> ''))))"
proof -
  from assms obtain ds where e: "e = \<lparr>var_docs = Some ds,
             var_chunked_docs = Some (split_documents lib splitter ds),
             var_db = Some (faiss_store (split_documents lib splitter ds)
                        (embed_query lib ''BAAI/bge-base-en-v1.5'')),
             var_retriever = Some (as_retriever
                        (faiss_store (split_documents lib splitter ds)
                           (embed_query lib ''BAAI/bge-base-en-v1.5'')) None None),
             var_llm_chain = Some llm_chain,
             var_rag_chain = Some (Pipe (Parallel
                        [(''context'', Retriever (as_retriever
                            (faiss_store (split_documents lib splitter ds)
                               (embed_query lib ''BAAI/bge-base-en-v1.5'')) None None)),
                         (''question'', RunnablePassthrough)]) llm_chain),
             var_question = Some ''How do you combine multiple adapters?''\<rparr>"
    unfolding notebook_run by blast
  define store where "store = faiss_store (split_documents lib splitter ds)
                        (embed_query lib ''BAAI/bge-base-en-v1.5'')"
  have db: "var_db e = Some store"
    and chain: "var_rag_chain e = Some (Pipe (Parallel
                 [(''context'', Retriever (as_retriever store None None)),
                  (''question'', RunnablePassthrough)]) llm_chain)"
    by (simp_all add: e store_def)
  have emb: "embedding_function store = embed_query lib ''BAAI/bge-base-en-v1.5''"
    by (simp add: store_def faiss_store_def)
  have "fst (answer lib seed q e) =
      (case nearest lib (entries store) (embedding_function store q) 4 of
         Inl err \<Rightarrow> Inl err
       | Inr hits \<Rightarrow>
           invoke lib seed llm_chain
             (Dict [(''context'', Docs (map fst hits)), (''question'', Str q)]))"
    by (simp only: answer_def fst_conv chain lookup_var_def option.case and_then_def
          sum.case rag_chain_invoke)
  then have out: "fst (answer lib seed q e) =
      (case nearest lib (entries store) (embedding_function store q) 4 of
         Inl err \<Rightarrow> Inl err
       | Inr hits \<Rightarrow>
           Inr (Str (generate lib text_generation_pipeline seed
             (''\<newline><|system|>\<newline>Answer the question based on your knowledge. Use the following context to help:\<newline>\<newline>''
              @ py_str lib (Docs (map fst hits))
              @ ''\<newline>\<newline></s>\<newline><|user|>\<newline>'' @ q
              @ ''\<newline></s>\<newline><|assistant|>\<newline>\<newline> ''))))"
    by (simp only: llm_chain_invoke to_str_def pyvalue.case)
  show ?thesis
    by (rule exI [of _ store], intro conjI, rule db, rule emb, rule out)
qed

theorem answer_retrieves_then_generates_witness:
  "\<exists>e. notebook demo_lib = Inr e \<and> fst (answer demo_lib 1 ''LoRA'' e) = Inr (Str ''yes'')"
proof -
  obtain e where nb: "notebook demo_lib = Inr e"
    using demo_notebook by blast
  from nb have db: "var_db e =
      Some (faiss_store (split_documents demo_lib splitter demo_issues)
              (embed_query demo_lib ''BAAI/bge-base-en-v1.5''))"
    unfolding notebook_run by (auto simp: demo_lib_def)
  from answer_retrieves_then_generates [OF nb, of 1 "''LoRA''"] db
  have "fst (answer demo_lib 1 ''LoRA'' e) = Inr (Str ''yes'')"
    by (auto simp: demo_lib_def faiss_store_def split_documents_def demo_issues_def
          query_index_def demo_distance_def text_generation_pipeline_def)
  with nb show ?thesis by blast
qed

text \<open>
  Claim C5, as amended. In the index of the specification, after a collection of pairs
  has been inserted, a query with the vector \<open>v\<close> of an inserted pair \<open>(v, s)\<close> returns
  \<open>s\<close> with distance 0 among its k results, provided that fewer than k pairs inserted
  before it are at distance 0 from \<open>v\<close>. The metric is 0 from \<open>v\<close> to itself and not
  negative from \<open>v\<close> to the other vectors. As the claim is written, with no bound on the
  ties, it fails: five pairs with one vector and k = 4.
\<close>

theorem query_returns_inserted_segment:
  fixes metric :: "'v \<Rightarrow> 'v \<Rightarrow> 'd::{linorder,zero}" and s :: 's
  assumes zero: "metric v v = 0"
    and nonneg: "\<forall>u\<in>fst ` set (pre @ post). 0 \<le> metric v u"
    and few: "length (filter (\<lambda>p. metric v (fst p) = 0) pre) < k"
  shows "\<exists>hits. query_index metric (insert_index [] (pre @ (v, s) # post)) v k = Inr hits \<and>
           (s, 0) \<in> set hits"
proof -
  define g where "g = (\<lambda>(u :: 'v, t :: 's). (t, metric v u))"
  define ys where "ys = map g (pre @ (v, s) # post)"
  define j where "j = length (filter (\<lambda>p. metric v (fst p) = 0) pre)"
  have snd_g: "\<And>p. snd (g p) = metric v (fst p)"
    by (simp add: g_def split: prod.splits)
  have "\<forall>p\<in>set (pre @ post). 0 \<le> metric v (fst p)"
    using nonneg by simp
  then have "\<forall>p\<in>set (pre @ (v, s) # post). 0 \<le> metric v (fst p)"
    using zero by auto
  then have "\<forall>y\<in>set ys. 0 \<le> snd y"
    unfolding ys_def set_map ball_simps snd_g .
  then obtain rest where srt: "sort_key snd ys = filter (\<lambda>y. snd y = 0) ys @ rest"
    using sort_key_least_prefix by blast
  have zs: "filter (\<lambda>y. snd y = 0) ys =
      filter (\<lambda>y. snd y = 0) (map g pre) @ (s, 0) # filter (\<lambda>y. snd y = 0) (map g post)"
    using zero by (simp add: ys_def g_def)
  have lenj: "length (filter (\<lambda>y. snd y = 0) (map g pre)) = j"
    by (simp add: j_def filter_map o_def snd_g)
  have at_j: "sort_key snd ys ! j = (s, 0)" and j_len: "j < length (sort_key snd ys)"
    using lenj by (simp_all add: srt zs nth_append)
  have "j < k" using few by (simp add: j_def)
  then have "take k (sort_key snd ys) ! j = (s, 0)"
    and "j < length (take k (sort_key snd ys))"
    using at_j j_len by simp_all
  then have "(s, 0) \<in> set (take k (sort_key snd ys))"
    by (metis nth_mem)
  then show ?thesis
    by (simp add: query_index_def insert_index_def ys_def g_def)
qed

theorem query_returns_inserted_segment_witness:
  "\<exists>hits. query_index demo_distance
            (insert_index [] ([(5, ''a''), (7, ''b''), (9, ''c''), (7, ''d'')] @ (7, ''e'') # [(7, ''f'')]))
            7 4 = Inr hits \<and>
          (''e'', 0) \<in> set hits"
proof -
  have "demo_distance 7 7 = 0"
    by (simp add: demo_distance_def)
  moreover have "\<forall>u\<in>fst ` set ([(5, ''a''), (7, ''b''), (9, ''c''), (7, ''d'')] @ [(7, ''f'')]).
      0 \<le> demo_distance 7 u"
    by (simp add: demo_distance_def)
  moreover have "length (filter (\<lambda>p. demo_distance 7 (fst p) = 0)
      [(5, ''a''), (7, ''b''), (9, ''c''), (7, ''d'')]) < 4"
    by (simp add: demo_distance_def)
  ultimately show ?thesis
    by (rule query_returns_inserted_segment)
qed

theorem query_misses_fifth_tie:
  "query_index demo_distance
     (insert_index [] [(7, ''a''), (7, ''b''), (7, ''c''), (7, ''d''), (7, ''e'')]) 7 4 =
   Inr [(''a'', 0), (''b'', 0), (''c'', 0), (''d'', 0)]"
  by (simp add: query_index_def insert_index_def demo_distance_def)

text \<open>
  Claim C8. For every question, invoking the generator chain with the empty string as
  context does not fail: the template is filled (an empty string is a supplied value),
  and the result is the model's completion of a prompt that holds the fixed instructions
  and the question and nothing retrieved.
\<close>

theorem generator_empty_context:
  "invoke lib seed llm_chain (Dict [(''context'', Str ''''), (''question'', Str q)]) =
     Inr (Str (generate lib text_generation_pipeline seed
       (''\<newline><|system|>\<newline>Answer the question based on your knowledge. Use the following context to help:\<newline>\<newline>''
        @ ''\<newline>\<newline></s>\<newline><|user|>\<newline>'' @ q
        @ ''\<newline></s>\<newline><|assistant|>\<newline>\<newline> '')))"
  by (simp only: llm_chain_invoke to_str_def pyvalue.case append_Nil)

text \<open>
  Claim C10. The cell that builds the RAG chain first assigns \<^verbatim>\<open>retriever\<close> again, with
  no arguments; the variable held the retriever configured with
  \<^verbatim>\<open>search_type="similarity"\<close> and \<^verbatim>\<open>k = 4\<close> before, and the chain is built from the new
  one. The two retrievers are different objects, and for every query they return the
  same sequence of segments.
\<close>

theorem default_retriever_same_as_explicit:
  assumes "cells_data lib = Inr e0" and "cells_chain e0 = Inr e"
  shows "\<exists>store. var_db e = Some store \<and>
           var_retriever e0 =
             Some (as_retriever store (Some ''similarity'') (Some [''k'' \<mapsto> 4])) \<and>
           var_retriever e = Some (as_retriever store None None) \<and>
           var_rag_chain e =
             Some (Pipe (Parallel [(''context'', Retriever (as_retriever store None None)),
                                   (''question'', RunnablePassthrough)]) llm_chain) \<and>
           as_retriever store None None \<noteq>
             as_retriever store (Some ''similarity'') (Some [''k'' \<mapsto> 4]) \<and>
           (\<forall>q. retriever_invoke lib (as_retriever store None None) q =
                retriever_invoke lib
                  (as_retriever store (Some ''similarity'') (Some [''k'' \<mapsto> 4])) q)"
proof -
  from assms(1) obtain store where db0: "var_db e0 = Some store"
    and r0: "var_retriever e0 =
      Some (as_retriever store (Some ''similarity'') (Some [''k'' \<mapsto> 4]))"
    unfolding cells_data_run by auto
  from assms(2) have e: "e = e0\<lparr>var_llm_chain := Some llm_chain,
             var_retriever := Some (as_retriever store None None),
             var_rag_chain :=
               Some (Pipe (Parallel [(''context'', Retriever (as_retriever store None None)),
                                     (''question'', RunnablePassthrough)]) llm_chain),
             var_question := Some ''How do you combine multiple adapters?''\<rparr>"
    by (simp add: cells_chain_run [OF db0])
  have "var_db e = Some store"
    and "var_retriever e = Some (as_retriever store None None)"
    and "var_rag_chain e =
             Some (Pipe (Parallel [(''context'', Retriever (as_retriever store None None)),
                                   (''question'', RunnablePassthrough)]) llm_chain)"
    by (simp_all add: e db0)
  moreover have "\<forall>q. retriever_invoke lib (as_retriever store None None) q =
                retriever_invoke lib
                  (as_retriever store (Some ''similarity'') (Some [''k'' \<mapsto> 4])) q"
    by (simp only: default_retriever_invoke explicit_retriever_invoke) simp
  ultimately show ?thesis
    using r0 retrievers_differ [of store] by blast
qed

theorem default_retriever_same_as_explicit_witness:
  "\<exists>e0 e. cells_data demo_lib = Inr e0 \<and> cells_chain e0 = Inr e \<and>
      var_retriever e \<noteq> var_retriever e0 \<and>
      (case var_retriever e of None \<Rightarrow> Inl (Name_Error ''retriever'')
       | Some r \<Rightarrow> retriever_invoke demo_lib r ''LoRA'') =
      (case var_retriever e0 of None \<Rightarrow> Inl (Name_Error ''retriever'')
       | Some r \<Rightarrow> retriever_invoke demo_lib r ''LoRA'')"
proof -
  obtain e0 where d: "cells_data demo_lib = Inr e0"
    using demo_cells_data by blast
  then obtain store where "var_db e0 = Some store"
    unfolding cells_data_run by auto
  then obtain e where c: "cells_chain e0 = Inr e"
    by (simp add: cells_chain_run)
  from default_retriever_same_as_explicit [OF d c] show ?thesis
    using d c by (intro exI [of _ e0] exI [of _ e]) auto
qed

end
